theory Spec2Isabelle
  imports Complex_Main "HOL-Library.Sublist"
begin

section \<open>Data model (types.ts)\<close>

text \<open>
  JavaScript numbers that hold times (seconds) are modelled as \<open>real\<close>; \<open>Date.now()\<close>
  is a natural number of milliseconds. A \<open>Blob\<close> is the list of its bytes. A JavaScript
  string is modelled by the bytes of its UTF-8 encoding, so a string of ASCII characters
  is the list of its characters.
\<close>

type_synonym blob = "nat list"

record memo =
  memo_id :: string
  title :: string
  url :: string
  memo_duration :: real
  createdAt :: nat
  blob :: blob

datatype PlaybackMode = SEQUENTIAL | LOOP_ONE | LOOP_ALL

definition PLAYBACK_SPEEDS :: "real list" where
  "PLAYBACK_SPEEDS = [0.5, 1.0, 1.25, 1.5, 2.0]"

section \<open>The host objects the component drives\<close>

text \<open>
  The \<open>HTMLAudioElement\<close> held in \<open>audioRef\<close>: the attributes the component reads or
  writes; \<open>defaultPlaybackRate\<close>, which the component never writes (it is 1 on a new
  element) and which the element's load algorithm copies into \<open>playbackRate\<close>; and the
  \<open>play\<close> and \<open>pause\<close> events that the element has queued and not yet fired, oldest
  first.
\<close>

datatype media_event = PlayEvent | PauseEvent

record audio =
  src :: string
  currentTime :: real
  paused :: bool
  a_playbackRate :: real
  defaultPlaybackRate :: real
  queued :: "media_event list"

text \<open>
  A \<open>MediaRecorder\<close>, named by the stream it records, together with what its \<open>onstop\<close>
  closure captured when \<open>startRecording\<close> created it: the constants \<open>memos\<close> and
  \<open>recordingTime\<close> of the render whose \<open>startRecording\<close> was invoked.
\<close>

record recorder =
  rec_stream :: nat
  cap_memos :: "memo list"
  cap_recordingTime :: real

text \<open>
  The component's state: the \<open>useState\<close> cells and the \<open>useRef\<close> cells of \<open>App\<close>,
  and what the host keeps for it: the recorders that are recording (\<open>liveRecorders\<close>),
  the intervals that are running, each with its id and the \<open>startTime\<close> its callback
  closed over (\<open>intervals\<close>), and the id that the next \<open>setInterval\<close> returns.
  \<open>recordingTimerRef\<close> holds an interval id.
\<close>

record app =
  memos :: "memo list"
  activeMemoId :: "string option"
  isRecording :: bool
  recordingTime :: real
  isPlaying :: bool
  playbackTime :: real
  duration :: real
  playbackRate :: real
  playbackMode :: PlaybackMode
  searchQuery :: string
  mediaRecorderRef :: "recorder option"
  audioChunksRef :: "blob list"
  recordingTimerRef :: "nat option"
  audioRef :: audio
  liveRecorders :: "recorder list"
  intervals :: "(nat \<times> nat) list"
  nextIntervalId :: nat

definition new_Audio :: audio where
  "new_Audio = \<lparr>src = [], currentTime = 0, paused = True,
                 a_playbackRate = 1, defaultPlaybackRate = 1, queued = []\<rparr>"

definition init :: app where
  "init = \<lparr>memos = [], activeMemoId = None, isRecording = False, recordingTime = 0,
            isPlaying = False, playbackTime = 0, duration = 0, playbackRate = 1.0,
            playbackMode = LOOP_ALL, searchQuery = [], mediaRecorderRef = None,
            audioChunksRef = [], recordingTimerRef = None, audioRef = new_Audio,
            liveRecorders = [], intervals = [], nextIntervalId = 1\<rparr>"

section \<open>Strings\<close>

text \<open>\<open>Number.prototype.toString\<close> on a natural number: its decimal digits.\<close>

definition digit :: "nat \<Rightarrow> char" where
  "digit d = ''0123456789'' ! d"

fun toString :: "nat \<Rightarrow> string" where
  "toString n = (if n < 10 then [digit n] else toString (n div 10) @ [digit (n mod 10)])"

declare toString.simps [simp del]











fun findIndex :: "('a \<Rightarrow> bool) \<Rightarrow> 'a list \<Rightarrow> nat option" where
  "findIndex P [] = None"
| "findIndex P (x # xs) =
     (if P x then Some 0 else (case findIndex P xs of None \<Rightarrow> None | Some i \<Rightarrow> Some (Suc i)))"

section \<open>The audio element's operations\<close>

text \<open>
  \<open>pause()\<close> on an element that is not paused sets \<open>paused\<close> and queues the \<open>pause\<close>
  event; on a paused element it does nothing.
\<close>

definition audio_pause :: "app \<Rightarrow> app" where
  "audio_pause s =
     (if paused (audioRef s) then s
      else s\<lparr>audioRef := (audioRef s)\<lparr>paused := True,
                                     queued := queued (audioRef s) @ [PauseEvent]\<rparr>\<rparr>)"

text \<open>
  What becomes of a call of \<open>play()\<close> is an input. \<open>Started\<close>: the element takes up
  playback. \<open>SourceFailed\<close>: the element takes up playback as before, then its source
  fails to load and the promise is rejected. \<open>Rejected\<close>: the element is not allowed to
  play, the promise is rejected at once and the element stays as it is. In the first two
  cases a paused element clears \<open>paused\<close> and queues the \<open>play\<close> event. The component
  answers a rejected promise with \<open>console.error\<close> only.
\<close>

datatype play_result = Started | SourceFailed | Rejected

definition audio_play :: "play_result \<Rightarrow> app \<Rightarrow> app" where
  "audio_play r s =
     (if r = Rejected then s
      else if paused (audioRef s)
      then s\<lparr>audioRef := (audioRef s)\<lparr>paused := False,
                                      queued := queued (audioRef s) @ [PlayEvent]\<rparr>\<rparr>
      else s)"

text \<open>
  The element's load algorithm (run by \<open>load()\<close> and by an assignment to \<open>src\<close>):
  the events queued and not yet fired are dropped, the element is paused without a
  \<open>pause\<close> event, the position returns to 0 and \<open>playbackRate\<close> is set to
  \<open>defaultPlaybackRate\<close>.
\<close>

definition audio_load :: "app \<Rightarrow> app" where
  "audio_load s =
     s\<lparr>audioRef := (audioRef s)\<lparr>currentTime := 0, paused := True,
                                     a_playbackRate := defaultPlaybackRate (audioRef s),
                                     queued := []\<rparr>\<rparr>"

definition audio_set_src :: "string \<Rightarrow> app \<Rightarrow> app" where
  "audio_set_src u s = audio_load (s\<lparr>audioRef := (audioRef s)\<lparr>src := u\<rparr>\<rparr>)"

definition audio_set_currentTime :: "real \<Rightarrow> app \<Rightarrow> app" where
  "audio_set_currentTime t s = s\<lparr>audioRef := (audioRef s)\<lparr>currentTime := t\<rparr>\<rparr>"

section \<open>Audio event listeners\<close>

text \<open>\<open>onPlay = setIsPlaying(true)\<close> and \<open>onPause = setIsPlaying(false)\<close>.\<close>

fun listener :: "media_event \<Rightarrow> app \<Rightarrow> app" where
  "listener PlayEvent s = s\<lparr>isPlaying := True\<rparr>"
| "listener PauseEvent s = s\<lparr>isPlaying := False\<rparr>"

text \<open>The element fires the events it has queued, oldest first, and the listeners run.\<close>

definition settle :: "app \<Rightarrow> app" where
  "settle s = foldl (\<lambda>t e. listener e t) (s\<lparr>audioRef := (audioRef s)\<lparr>queued := []\<rparr>\<rparr>)
                    (queued (audioRef s))"

definition updateTime :: "app \<Rightarrow> app" where
  "updateTime s = s\<lparr>playbackTime := currentTime (audioRef s)\<rparr>"

text \<open>\<open>setDuration(audio.duration || 0)\<close>; \<open>None\<close> is \<open>NaN\<close>.\<close>

definition updateDuration :: "real option \<Rightarrow> app \<Rightarrow> app" where
  "updateDuration d s = s\<lparr>duration := (case d of None \<Rightarrow> 0 | Some x \<Rightarrow> x)\<rparr>"

section \<open>Playback logic\<close>

text \<open>
  A function of the component reads the state cells as constants of the render that
  created it, and acts on the element and on the setters. \<open>playMemo_from c\<close> is the
  \<open>playMemo\<close> of the render that held the state \<open>c\<close>, run when the state is \<open>s\<close>.
\<close>

definition playMemo_from :: "app \<Rightarrow> play_result \<Rightarrow> memo \<Rightarrow> app \<Rightarrow> app" where
  "playMemo_from c r m s =
     (if activeMemoId c = Some (memo_id m)
      then (if isPlaying c then audio_pause s else audio_play r s)
      else audio_play r (audio_load (audio_set_src (url m)
             (s\<lparr>activeMemoId := Some (memo_id m)\<rparr>))))"

text \<open>A click on a list entry runs the \<open>playMemo\<close> of the current render.\<close>

definition playMemo :: "play_result \<Rightarrow> memo \<Rightarrow> app \<Rightarrow> app" where
  "playMemo r m s = playMemo_from s r m s"

text \<open>
  The \<open>ended\<close> listener calls the \<open>handlePlaybackEnded\<close> of the render in which the
  effect on \<open>[memos, activeMemoId, playbackMode]\<close> last ran: \<open>c\<close> is the state that render
  held, \<open>s\<close> the state when the event fires. They agree on \<open>memos\<close>, \<open>activeMemoId\<close> and
  \<open>playbackMode\<close>; \<open>isPlaying\<close> is not among the dependencies.
\<close>

definition handlePlaybackEnded :: "app \<Rightarrow> play_result \<Rightarrow> app \<Rightarrow> app" where
  "handlePlaybackEnded c r s =
     (if playbackMode c = LOOP_ONE
      then audio_play r (audio_set_currentTime 0 s)
      else
        (case findIndex (\<lambda>m. Some (memo_id m) = activeMemoId c) (memos c) of
           None \<Rightarrow> s
         | Some currentIndex \<Rightarrow>
             (if playbackMode c = SEQUENTIAL
              then (if int currentIndex < int (length (memos c)) - 1
                    then playMemo_from c r (memos c ! (currentIndex + 1)) s
                    else s\<lparr>isPlaying := False\<rparr>)
              else if playbackMode c = LOOP_ALL
              then playMemo_from c r (memos c ! ((currentIndex + 1) mod length (memos c))) s
              else s)))"

definition skipTime :: "real \<Rightarrow> app \<Rightarrow> app" where
  "skipTime seconds s =
     (let newTime = min (max (currentTime (audioRef s) + seconds) 0) (duration s)
      in audio_set_currentTime newTime s)"

text \<open>The scrubber: a range input with \<open>min = 0\<close> and \<open>max = duration || 100\<close>.\<close>

definition scrubberMax :: "app \<Rightarrow> real" where
  "scrubberMax s = (if duration s = 0 then 100 else duration s)"

definition scrubberChange :: "real \<Rightarrow> app \<Rightarrow> app" where
  "scrubberChange v s = (audio_set_currentTime v s)\<lparr>playbackTime := v\<rparr>"

definition indexOf :: "'a list \<Rightarrow> 'a \<Rightarrow> int" where
  "indexOf xs x = (case findIndex (\<lambda>y. y = x) xs of None \<Rightarrow> - 1 | Some i \<Rightarrow> int i)"

definition togglePlaybackMode :: "app \<Rightarrow> app" where
  "togglePlaybackMode s =
     (let modes = [LOOP_ALL, LOOP_ONE, SEQUENTIAL];
          nextIndex = (indexOf modes (playbackMode s) + 1) mod int (length modes)
      in s\<lparr>playbackMode := modes ! nat nextIndex\<rparr>)"

text \<open>\<open>setPlaybackRate(next)\<close>, followed by the effect on \<open>[playbackRate]\<close>.\<close>

definition cycleSpeed :: "app \<Rightarrow> app" where
  "cycleSpeed s =
     (let idx = indexOf PLAYBACK_SPEEDS (playbackRate s);
          next = PLAYBACK_SPEEDS ! nat ((idx + 1) mod int (length PLAYBACK_SPEEDS))
      in s\<lparr>playbackRate := next, audioRef := (audioRef s)\<lparr>a_playbackRate := next\<rparr>\<rparr>)"

section \<open>Recording logic\<close>

text \<open>
  \<open>startRecording\<close> runs up to the \<open>await\<close>, then continues with the answer of
  \<open>getUserMedia\<close>: a stream, or a rejection. Its two halves are taken as one step.
  \<open>now\<close> is the \<open>Date.now()\<close> that the new interval's callback measures from. The
  references are overwritten: a recorder and an interval that they pointed to stay with the
  host as they are.
\<close>

datatype permission = Granted nat | Denied

definition startRecording :: "permission \<Rightarrow> nat \<Rightarrow> app \<Rightarrow> app" where
  "startRecording perm now s =
     (let s1 = (audio_pause (s\<lparr>isRecording := True\<rparr>))\<lparr>isPlaying := False\<rparr>
      in case perm of
           Denied \<Rightarrow> s1\<lparr>isRecording := False\<rparr>
         | Granted stream \<Rightarrow>
             (let mediaRecorder = \<lparr>rec_stream = stream, cap_memos = memos s,
                                   cap_recordingTime = recordingTime s\<rparr>
              in s1\<lparr>mediaRecorderRef := Some mediaRecorder,
                    audioChunksRef := [],
                    liveRecorders := mediaRecorder # liveRecorders s,
                    intervals := (nextIntervalId s, now) # intervals s,
                    recordingTimerRef := Some (nextIntervalId s),
                    nextIntervalId := Suc (nextIntervalId s)\<rparr>))"

text \<open>
  The callback of the interval \<open>i\<close>, while it runs:
  \<open>setRecordingTime((Date.now() - startTime) / 1000)\<close> with its own \<open>startTime\<close>.
\<close>

definition timerTick :: "nat \<Rightarrow> nat \<Rightarrow> app \<Rightarrow> app" where
  "timerTick i now s =
     (case map_of (intervals s) i of
        None \<Rightarrow> s
      | Some startTime \<Rightarrow> s\<lparr>recordingTime := (real now - real startTime) / 1000\<rparr>)"

definition ondataavailable :: "blob \<Rightarrow> app \<Rightarrow> app" where
  "ondataavailable data s =
     (if length data > 0 then s\<lparr>audioChunksRef := audioChunksRef s @ [data]\<rparr> else s)"

text \<open>
  What the host supplies when a recording is finalized: the data of the last
  \<open>dataavailable\<close> event, the two readings of \<open>Date.now()\<close> and the string returned
  by \<open>URL.createObjectURL\<close>.
\<close>

record stop_env =
  lastData :: blob
  idNow :: nat
  createdNow :: nat
  objectURL :: string

definition newMemo :: "stop_env \<Rightarrow> recorder \<Rightarrow> app \<Rightarrow> memo" where
  "newMemo e rc s =
     \<lparr>memo_id = toString (idNow e),
      title = ''New Recording '' @ toString (length (cap_memos rc) + 1),
      url = objectURL e,
      memo_duration = cap_recordingTime rc,
      createdAt = createdNow e,
      blob = concat (audioChunksRef s)\<rparr>"

definition onstop :: "stop_env \<Rightarrow> recorder \<Rightarrow> app \<Rightarrow> app" where
  "onstop e rc s =
     (let m = newMemo e rc s
      in audio_set_src (url m)
           (s\<lparr>memos := m # memos s, recordingTime := 0, activeMemoId := Some (memo_id m)\<rparr>))"

text \<open>\<open>if (recordingTimerRef.current) clearInterval(recordingTimerRef.current)\<close>.\<close>

definition clearTimer :: "nat option \<Rightarrow> (nat \<times> nat) list \<Rightarrow> (nat \<times> nat) list" where
  "clearTimer ref ivs =
     (case ref of
        None \<Rightarrow> ivs
      | Some i \<Rightarrow> (if i = 0 then ivs else filter (\<lambda>iv. fst iv \<noteq> i) ivs))"

text \<open>
  \<open>stopRecording\<close>: \<open>stop()\<close> on a recorder that is recording makes it inactive and
  fires \<open>dataavailable\<close> and \<open>stop\<close>, whose handlers run after the rest of
  \<open>stopRecording\<close>; on an inactive recorder it does nothing.
\<close>

definition stopRecording :: "stop_env \<Rightarrow> app \<Rightarrow> app" where
  "stopRecording e s =
     (case mediaRecorderRef s of
        None \<Rightarrow> s
      | Some rc \<Rightarrow>
          (if isRecording s
           then (let s1 = s\<lparr>isRecording := False,
                           intervals := clearTimer (recordingTimerRef s) (intervals s)\<rparr>
                 in if rec_stream rc \<in> set (map rec_stream (liveRecorders s))
                    then onstop e rc (ondataavailable (lastData e)
                           (s1\<lparr>liveRecorders :=
                                 filter (\<lambda>x. rec_stream x \<noteq> rec_stream rc) (liveRecorders s)\<rparr>))
                    else s1)
           else s))"

section \<open>Memo store, filtering, view\<close>

definition insertFront :: "memo \<Rightarrow> memo list \<Rightarrow> memo list" where
  "insertFront m ms = m # ms"

definition remove :: "string \<Rightarrow> memo list \<Rightarrow> memo list" where
  "remove i ms = filter (\<lambda>m. memo_id m \<noteq> i) ms"

definition deleteMemo :: "string \<Rightarrow> app \<Rightarrow> app" where
  "deleteMemo i s =
     (let s1 = s\<lparr>memos := remove i (memos s)\<rparr>
      in if activeMemoId s = Some i
         then audio_set_src [] (audio_pause (s1\<lparr>activeMemoId := None\<rparr>))
         else s1)"



definition activeMemo :: "app \<Rightarrow> memo option" where
  "activeMemo s = find (\<lambda>m. Some (memo_id m) = activeMemoId s) (memos s)"

text \<open>The title input of the player panel.\<close>

definition renameMemo :: "string \<Rightarrow> string \<Rightarrow> app \<Rightarrow> app" where
  "renameMemo i newTitle s =
     s\<lparr>memos := map (\<lambda>m. if memo_id m = i then m\<lparr>title := newTitle\<rparr> else m) (memos s)\<rparr>"

text \<open>
  \<open>App\<close> returns the recording page when \<open>isRecording\<close> holds and the unified page
  otherwise; the button bound to \<open>startRecording\<close> is on the unified page only, the
  button bound to \<open>stopRecording\<close> on the recording page only.
\<close>

datatype view = RecordingPage | UnifiedPage

definition render :: "app \<Rightarrow> view" where
  "render s = (if isRecording s then RecordingPage else UnifiedPage)"

definition startButtonShown :: "app \<Rightarrow> bool" where
  "startButtonShown s = (render s = UnifiedPage)"

text \<open>Sequences of store operations.\<close>

datatype store_op = InsertFront memo | Remove string

fun applyOp :: "memo list \<Rightarrow> store_op \<Rightarrow> memo list" where
  "applyOp ms (InsertFront m) = insertFront m ms"
| "applyOp ms (Remove i) = remove i ms"

definition runOps :: "store_op list \<Rightarrow> memo list" where
  "runOps ops = foldl applyOp [] ops"

text \<open>Every inserted memo carries an id that the store does not hold at that moment.\<close>

fun freshOps :: "memo list \<Rightarrow> store_op list \<Rightarrow> bool" where
  "freshOps ms [] = True"
| "freshOps ms (InsertFront m # ops) =
     (memo_id m \<notin> set (map memo_id ms) \<and> freshOps (insertFront m ms) ops)"
| "freshOps ms (Remove i # ops) = freshOps (remove i ms) ops"



section \<open>Sample data\<close>

definition memoA :: memo where
  "memoA = \<lparr>memo_id = ''1'', title = ''Meeting Notes'', url = ''blob:a'',
            memo_duration = 10, createdAt = 1, blob = [1]\<rparr>"

definition memoB :: memo where
  "memoB = \<lparr>memo_id = ''2'', title = ''Idea'', url = ''blob:b'',
            memo_duration = 20, createdAt = 2, blob = [2]\<rparr>"

text \<open>A memo finalized in the same millisecond as \<open>memoA\<close>.\<close>

definition memoA' :: memo where
  "memoA' = \<lparr>memo_id = ''1'', title = ''New Recording 2'', url = ''blob:c'',
             memo_duration = 0, createdAt = 1, blob = [3]\<rparr>"




text \<open>\<open>memoA\<close> is loaded and playing; the store is \<open>[memoA, memoB]\<close>.\<close>

definition playingA :: app where
  "playingA = init\<lparr>memos := [memoA, memoB], activeMemoId := Some ''1'', isPlaying := True,
                   duration := 10,
                   audioRef := new_Audio\<lparr>src := ''blob:a'', paused := False\<rparr>\<rparr>"

text \<open>\<open>memoA\<close> is loaded but its metadata has not arrived: \<open>duration\<close> is still 0.\<close>

definition loadedA :: app where
  "loadedA = init\<lparr>memos := [memoA], activeMemoId := Some ''1'',
                   audioRef := new_Audio\<lparr>src := ''blob:a''\<rparr>\<rparr>"

text \<open>\<open>memoA\<close> is loaded and paused; the store is \<open>[memoA, memoB]\<close>.\<close>

definition pausedA :: app where
  "pausedA = init\<lparr>memos := [memoA, memoB], activeMemoId := Some ''1'', duration := 10,
                   audioRef := new_Audio\<lparr>src := ''blob:a''\<rparr>\<rparr>"

text \<open>
  The only memo of the store is active and playing. This is the state of the render in
  which the effect that registers the \<open>ended\<close> listener last ran when, for one, the
  playback mode was changed during playback.
\<close>

definition oneMemoPlaying :: app where
  "oneMemoPlaying = init\<lparr>memos := [memoA], activeMemoId := Some ''1'', isPlaying := True,
       duration := 10,
       audioRef := new_Audio\<lparr>src := ''blob:a'', currentTime := 4, paused := False\<rparr>\<rparr>"

text \<open>
  The same store when the track has run to its end: the element has paused itself and
  fired \<open>pause\<close>, and fires \<open>ended\<close>.
\<close>

definition oneMemoEnded :: app where
  "oneMemoEnded = init\<lparr>memos := [memoA], activeMemoId := Some ''1'', duration := 10,
       audioRef := new_Audio\<lparr>src := ''blob:a'', currentTime := 10\<rparr>\<rparr>"

text \<open>The last memo of \<open>[memoA, memoB]\<close> is active and its track has run to the end.\<close>

definition endedB :: app where
  "endedB = init\<lparr>memos := [memoA, memoB], activeMemoId := Some ''2'', duration := 20,
                  audioRef := new_Audio\<lparr>src := ''blob:b'', currentTime := 20\<rparr>\<rparr>"

text \<open>The same, with an active id that the store does not hold.\<close>

definition endedGone :: app where
  "endedGone = endedB\<lparr>activeMemoId := Some ''9''\<rparr>"

text \<open>\<open>playingA\<close> after one press of the speed button.\<close>

definition fasterA :: app where
  "fasterA = cycleSpeed playingA"

text \<open>
  A recording started on the fresh component at time 1000, one chunk delivered, the
  callback of its interval last run at time 4200.
\<close>

definition recording1 :: app where
  "recording1 = timerTick 1 4200 (ondataavailable [7, 7] (startRecording (Granted 1) 1000 init))"


definition env1 :: stop_env where
  "env1 = \<lparr>lastData = [8], idNow = 4205, createdNow = 4206, objectURL = ''blob:x''\<rparr>"


text \<open>
  What the branch of \<open>playMemo\<close> for another memo leaves before \<open>play()\<close> answers:
  the active id, and the element loaded with the memo's source.
\<close>

definition selected :: "memo \<Rightarrow> app \<Rightarrow> app" where
  "selected m s = s\<lparr>activeMemoId := Some (memo_id m),
      audioRef := (audioRef s)\<lparr>src := url m, currentTime := 0, paused := True,
                               a_playbackRate := defaultPlaybackRate (audioRef s),
                               queued := []\<rparr>\<rparr>"

text \<open>The element takes up playback from pause: \<open>paused\<close> is cleared, \<open>play\<close> is queued.\<close>

definition resumed :: "app \<Rightarrow> app" where
  "resumed s = s\<lparr>audioRef := (audioRef s)\<lparr>paused := False,
                                          queued := queued (audioRef s) @ [PlayEvent]\<rparr>\<rparr>"

section \<open>Search and filter\<close>















section \<open>Deleting a memo\<close>

text \<open>
  C10. Deleting a memo whose id is not the active id replaces the store by the store
  without the entries of that id, every other entry kept in order, and changes nothing
  else: not the active id, not \<open>isPlaying\<close>, not the audio element (source, position).
\<close>

theorem deleteMemo_other:
  "activeMemoId s \<noteq> Some i \<Longrightarrow>
     deleteMemo i s = s\<lparr>memos := filter (\<lambda>m. memo_id m \<noteq> i) (memos s)\<rparr>
     \<and> activeMemoId (deleteMemo i s) = activeMemoId s
     \<and> isPlaying (deleteMemo i s) = isPlaying s
     \<and> audioRef (deleteMemo i s) = audioRef s
     \<and> playbackTime (deleteMemo i s) = playbackTime s"
  by (simp add: deleteMemo_def remove_def)

theorem deleteMemo_other_witness:
  "activeMemoId playingA \<noteq> Some ''2''
   \<and> deleteMemo ''2'' playingA = playingA\<lparr>memos := [memoA]\<rparr>
   \<and> isPlaying (deleteMemo ''2'' playingA)"
  using deleteMemo_other [of playingA "''2''"]
  by (simp add: playingA_def init_def memoA_def memoB_def)

section \<open>Uniqueness of ids in the store\<close>

lemma distinct_remove: "distinct (map memo_id ms) \<Longrightarrow> distinct (map memo_id (remove i ms))"
  by (simp add: remove_def distinct_map_filter)

lemma freshOps_distinct:
  "freshOps ms ops \<Longrightarrow> distinct (map memo_id ms) \<Longrightarrow>
     distinct (map memo_id (foldl applyOp ms ops))"
proof (induction ms ops rule: freshOps.induct)
  case (1 ms)
  then show ?case by simp
next
  case (2 ms m ops)
  then show ?case by (simp add: insertFront_def)
next
  case (3 ms i ops)
  then show ?case by (simp add: distinct_remove)
qed

text \<open>
  C4, as stated, fails: \<open>insertFront\<close> does not look at the ids already stored, so two
  memos finalized in the same millisecond both enter the store under one id.
\<close>

theorem runOps_duplicate_ids:
  "\<not> distinct (map memo_id (runOps [InsertFront memoA, InsertFront memoA']))"
  by (simp add: runOps_def insertFront_def memoA_def memoA'_def)

text \<open>
  C4, amended. For every sequence of \<open>insertFront\<close> and \<open>remove\<close> applied to the empty
  store in which each inserted memo carries an id the store does not hold at that moment,
  no two memos of the resulting store share an id.
\<close>

theorem runOps_distinct_ids:
  "freshOps [] ops \<Longrightarrow> distinct (map memo_id (runOps ops))"
  unfolding runOps_def by (rule freshOps_distinct) simp_all

theorem runOps_distinct_ids_witness:
  "freshOps [] [InsertFront memoA, InsertFront memoB, Remove ''1'', InsertFront memoA']
   \<and> distinct (map memo_id (runOps [InsertFront memoA, InsertFront memoB, Remove ''1'',
                                      InsertFront memoA']))"
  using runOps_distinct_ids [of "[InsertFront memoA, InsertFront memoB, Remove ''1'',
                                  InsertFront memoA']"]
  by (simp add: insertFront_def remove_def memoA_def memoB_def memoA'_def)

section \<open>Seeking\<close>

text \<open>
  C7, as stated, fails for the scrubber: its handler writes the chosen value into the
  element and into \<open>playbackTime\<close> without clamping, and the range input offers values
  up to 100 while \<open>duration\<close> is 0.
\<close>

theorem scrubberChange_beyond_duration:
  "(0::real) \<le> 50 \<and> 50 \<le> scrubberMax loadedA
   \<and> \<not> playbackTime (scrubberChange 50 loadedA) \<le> duration (scrubberChange 50 loadedA)
   \<and> \<not> currentTime (audioRef (scrubberChange 50 loadedA))
         \<le> duration (scrubberChange 50 loadedA)"
  by (simp add: scrubberMax_def scrubberChange_def audio_set_currentTime_def loadedA_def init_def)

text \<open>
  C7, amended. With \<open>duration \<ge> 0\<close>, for every position and every delta, \<open>skipTime\<close>
  sets the element's position to position plus delta clamped to \<open>[0, duration]\<close>, which
  is the position the scrubber sets for that clamped value. The scrubber sets the position
  to the value chosen, unclamped; a value the range input offers, between 0 and
  \<open>duration || 100\<close>, lies in \<open>[0, duration]\<close> whenever \<open>duration\<close> is not 0.
\<close>

theorem skipTime_clamped:
  "0 \<le> duration s \<Longrightarrow>
     currentTime (audioRef (skipTime d s))
       = min (max (currentTime (audioRef s) + d) 0) (duration s)
   \<and> 0 \<le> currentTime (audioRef (skipTime d s))
   \<and> currentTime (audioRef (skipTime d s)) \<le> duration (skipTime d s)
   \<and> audioRef (skipTime d s)
       = audioRef (scrubberChange (min (max (currentTime (audioRef s) + d) 0) (duration s)) s)
   \<and> currentTime (audioRef (scrubberChange v s)) = v
   \<and> playbackTime (scrubberChange v s) = v
   \<and> (0 \<le> v \<and> v \<le> scrubberMax s \<and> duration s \<noteq> 0 \<longrightarrow>
         0 \<le> playbackTime (scrubberChange v s)
         \<and> playbackTime (scrubberChange v s) \<le> duration (scrubberChange v s))"
  by (simp add: skipTime_def scrubberChange_def audio_set_currentTime_def scrubberMax_def Let_def)

theorem skipTime_clamped_witness:
  "0 \<le> duration playingA
   \<and> currentTime (audioRef (skipTime 15 playingA)) = 10
   \<and> currentTime (audioRef (skipTime (- 15) playingA)) = 0
   \<and> (0::real) \<le> 4 \<and> 4 \<le> scrubberMax playingA \<and> duration playingA \<noteq> 0
   \<and> playbackTime (scrubberChange 4 playingA) = 4
   \<and> playbackTime (scrubberChange 4 playingA) \<le> duration (scrubberChange 4 playingA)"
proof -
  have h: "0 \<le> duration playingA"
    by (simp add: playingA_def init_def)
  have v: "currentTime (audioRef playingA) = 0" "duration playingA = 10"
    "scrubberMax playingA = 10"
    by (simp_all add: playingA_def init_def new_Audio_def scrubberMax_def)
  from skipTime_clamped [OF h, of 15 4]
  have a: "currentTime (audioRef (skipTime 15 playingA))
           = min (max (currentTime (audioRef playingA) + 15) 0) (duration playingA)"
    and c: "playbackTime (scrubberChange 4 playingA) = 4"
    and e: "(0::real) \<le> 4 \<and> 4 \<le> scrubberMax playingA \<and> duration playingA \<noteq> 0 \<longrightarrow>
            0 \<le> playbackTime (scrubberChange 4 playingA)
            \<and> playbackTime (scrubberChange 4 playingA) \<le> duration (scrubberChange 4 playingA)"
    by blast+
  from skipTime_clamped [OF h, of "- 15" 4]
  have b: "currentTime (audioRef (skipTime (- 15) playingA))
           = min (max (currentTime (audioRef playingA) + (- 15)) 0) (duration playingA)"
    by blast
  from e have f: "playbackTime (scrubberChange 4 playingA) \<le> duration (scrubberChange 4 playingA)"
    by (simp add: v)
  from a b c f h show ?thesis
    by (simp add: v)
qed

section \<open>Recording\<close>

lemma recording1_eq:
  "recording1 = init\<lparr>isRecording := True, recordingTime := 16 / 5,
     mediaRecorderRef := Some \<lparr>rec_stream = 1, cap_memos = [], cap_recordingTime = 0\<rparr>,
     audioChunksRef := [[7, 7]], recordingTimerRef := Some 1,
     liveRecorders := [\<lparr>rec_stream = 1, cap_memos = [], cap_recordingTime = 0\<rparr>],
     intervals := [(1, 1000)], nextIntervalId := 2\<rparr>"
  by (simp add: recording1_def startRecording_def timerTick_def ondataavailable_def audio_pause_def
      init_def new_Audio_def Let_def)

lemma newMemo_duration_captured:
  "mediaRecorderRef (startRecording (Granted st) now s) = Some rc \<Longrightarrow>
     memo_duration (newMemo e rc s') = recordingTime s
     \<and> title (newMemo e rc s') = ''New Recording '' @ toString (length (memos s) + 1)"
  by (auto simp: startRecording_def newMemo_def Let_def)

text \<open>
  C3. The code at a recording of 3.2 seconds on the fresh component: \<open>stopRecording\<close>
  finalizes one memo, titled \<open>New Recording 1\<close>, at index 0, active and not playing,
  but its duration is 0, the \<open>recordingTime\<close> of the render in which
  \<open>startRecording\<close> was invoked, and not the 3.2 seconds elapsed.
\<close>

theorem stopRecording_duration_stale:
  "recordingTime recording1 = 3.2
   \<and> memos (stopRecording env1 recording1)
       = [\<lparr>memo_id = ''4205'', title = ''New Recording 1'', url = ''blob:x'',
           memo_duration = 0, createdAt = 4206, blob = [7, 7, 8]\<rparr>]
   \<and> activeMemoId (stopRecording env1 recording1) = Some ''4205''
   \<and> \<not> isPlaying (stopRecording env1 recording1)"
  by (simp add: recording1_eq stopRecording_def onstop_def newMemo_def ondataavailable_def
      clearTimer_def audio_set_src_def audio_load_def env1_def init_def new_Audio_def
      toString.simps digit_def Let_def)



section \<open>Selecting a memo\<close>

lemma playMemo_other:
  "activeMemoId s \<noteq> Some (memo_id m) \<Longrightarrow>
     playMemo Rejected m s = selected m s
   \<and> playMemo Started m s = resumed (selected m s)
   \<and> playMemo SourceFailed m s = resumed (selected m s)"
  by (simp add: playMemo_def playMemo_from_def selected_def resumed_def audio_play_def
      audio_load_def audio_set_src_def)

lemma settle_selected: "settle (selected m s) = selected m s"
  by (simp add: settle_def selected_def)

lemma settle_resumed_selected:
  "settle (resumed (selected m s))
     = (selected m s)\<lparr>audioRef := (audioRef (selected m s))\<lparr>paused := False\<rparr>,
                      isPlaying := True\<rparr>"
  by (simp add: settle_def selected_def resumed_def)

text \<open>
  C8. The code at two selections that fail, once the element has fired what it queued.
  \<open>memoB\<close> is selected while \<open>memoA\<close> is loaded and paused, and its source fails to
  load: the active id is that of \<open>memoB\<close>, but \<open>isPlaying\<close> is true, set by the \<open>play\<close>
  event that the element fired before the failure. \<open>memoB\<close> is selected while \<open>memoA\<close>
  plays, and \<open>play()\<close> is rejected at once: the element is paused and \<open>isPlaying\<close> is
  still true. The handler of the rejected promise logs and sets nothing.
\<close>

theorem playMemo_failure_isPlaying:
  "\<not> isPlaying pausedA
   \<and> activeMemoId pausedA \<noteq> Some (memo_id memoB)
   \<and> activeMemoId (settle (playMemo SourceFailed memoB pausedA)) = Some (memo_id memoB)
   \<and> isPlaying (settle (playMemo SourceFailed memoB pausedA))
   \<and> activeMemoId playingA \<noteq> Some (memo_id memoB)
   \<and> activeMemoId (settle (playMemo Rejected memoB playingA)) = Some (memo_id memoB)
   \<and> paused (audioRef (settle (playMemo Rejected memoB playingA)))
   \<and> isPlaying (settle (playMemo Rejected memoB playingA))"
proof -
  have p: "activeMemoId pausedA \<noteq> Some (memo_id memoB)" "\<not> isPlaying pausedA"
    by (simp_all add: pausedA_def init_def memoB_def)
  have q: "activeMemoId playingA \<noteq> Some (memo_id memoB)" "isPlaying playingA"
    by (simp_all add: playingA_def init_def memoB_def)
  from p(1) have a: "settle (playMemo SourceFailed memoB pausedA)
      = (selected memoB pausedA)\<lparr>audioRef := (audioRef (selected memoB pausedA))\<lparr>paused := False\<rparr>,
                                 isPlaying := True\<rparr>"
    by (simp add: playMemo_other settle_resumed_selected)
  from q(1) have b: "settle (playMemo Rejected memoB playingA) = selected memoB playingA"
    by (simp add: playMemo_other settle_selected)
  show ?thesis
    unfolding a b using p q by (simp add: selected_def)
qed

section \<open>Playback rate\<close>

lemma indexOf_speed_1: "indexOf PLAYBACK_SPEEDS 1 = 1"
  by (simp add: indexOf_def PLAYBACK_SPEEDS_def)

lemma cycleSpeed_from_1:
  "playbackRate s = 1 \<Longrightarrow>
     cycleSpeed s = s\<lparr>playbackRate := 5 / 4,
                      audioRef := (audioRef s)\<lparr>a_playbackRate := 5 / 4\<rparr>\<rparr>"
  by (simp add: cycleSpeed_def indexOf_speed_1 Let_def) (simp add: PLAYBACK_SPEEDS_def)

lemma fasterA_eq:
  "fasterA = playingA\<lparr>playbackRate := 5 / 4,
                       audioRef := (audioRef playingA)\<lparr>a_playbackRate := 5 / 4\<rparr>\<rparr>"
  unfolding fasterA_def by (rule cycleSpeed_from_1) (simp add: playingA_def init_def)

lemma playMemo_other_rate:
  "activeMemoId s \<noteq> Some (memo_id m) \<Longrightarrow>
     a_playbackRate (audioRef (playMemo r m s)) = defaultPlaybackRate (audioRef s)
     \<and> playbackRate (playMemo r m s) = playbackRate s"
  using playMemo_other [of s m] by (cases r) (simp_all add: selected_def resumed_def)

text \<open>
  C6. The code after the speed button has set the rate to 1.25 and another memo is
  selected: the state cell \<open>playbackRate\<close> still holds 1.25, but the element's rate is
  back at its default 1, since loading a source resets it and the effect that copies the
  cell into the element runs only when the cell changes.
\<close>

theorem playMemo_resets_rate:
  "playbackRate fasterA = 5 / 4 \<and> a_playbackRate (audioRef fasterA) = 5 / 4
   \<and> 5 / 4 \<in> set PLAYBACK_SPEEDS
   \<and> activeMemoId fasterA \<noteq> Some (memo_id memoB)
   \<and> playbackRate (playMemo Started memoB fasterA) = 5 / 4
   \<and> a_playbackRate (audioRef (playMemo Started memoB fasterA)) = 1"
  by (simp add: fasterA_eq playMemo_def playMemo_from_def audio_play_def audio_load_def
      audio_set_src_def playingA_def init_def new_Audio_def memoB_def PLAYBACK_SPEEDS_def)

section \<open>Deleting the active memo\<close>

lemma deleteMemo_active:
  "activeMemoId s = Some i \<Longrightarrow>
     activeMemoId (deleteMemo i s) = None
   \<and> paused (audioRef (deleteMemo i s))
   \<and> src (audioRef (deleteMemo i s)) = []
   \<and> queued (audioRef (deleteMemo i s)) = []
   \<and> isPlaying (deleteMemo i s) = isPlaying s
   \<and> settle (deleteMemo i s) = deleteMemo i s"
  by (simp add: deleteMemo_def audio_pause_def audio_load_def audio_set_src_def settle_def Let_def)

lemma deleteMemo_no_dangling:
  assumes "\<forall>a. activeMemoId s = Some a \<longrightarrow> a \<in> memo_id ` set (memos s)"
  shows "\<forall>a. activeMemoId (deleteMemo i s) = Some a \<longrightarrow>
             a \<in> memo_id ` set (memos (deleteMemo i s))"
proof (cases "activeMemoId s = Some i")
  case True
  then show ?thesis using deleteMemo_active [of s i] by simp
next
  case False
  with assms show ?thesis
    by (auto simp: deleteMemo_def remove_def)
qed

text \<open>
  Deleting the active memo while it plays: the \<open>pause\<close> event that \<open>pause()\<close> queued is
  dropped by the load that the assignment to \<open>src\<close> starts, so \<open>isPlaying\<close> stays true.
\<close>

lemma deleteMemo_while_playing:
  "activeMemoId playingA = Some ''1''
   \<and> activeMemoId (settle (deleteMemo ''1'' playingA)) = None
   \<and> isPlaying (settle (deleteMemo ''1'' playingA))"
proof -
  have a: "activeMemoId playingA = Some ''1''" "isPlaying playingA"
    by (simp_all add: playingA_def init_def)
  from deleteMemo_active [OF a(1)] a show ?thesis by simp
qed

text \<open>
  C2. The code when \<open>memoB\<close> is selected while \<open>memoA\<close> plays, \<open>play()\<close> is
  rejected, and \<open>memoB\<close>, now active, is deleted: the active id is cleared, but
  \<open>isPlaying\<close> is still true. \<open>deleteMemo\<close> calls \<open>pause()\<close> and leaves the flag to
  the \<open>pause\<close> event, which an element that is already paused does not fire;
  \<open>startRecording\<close> calls \<open>setIsPlaying(false)\<close> after its \<open>pause()\<close>.
\<close>

theorem deleteMemo_active_still_playing:
  "activeMemoId (playMemo Rejected memoB playingA) = Some ''2''
   \<and> activeMemoId (deleteMemo ''2'' (playMemo Rejected memoB playingA)) = None
   \<and> isPlaying (deleteMemo ''2'' (playMemo Rejected memoB playingA))"
  by (simp add: deleteMemo_def playMemo_def playMemo_from_def audio_play_def audio_pause_def
      audio_load_def audio_set_src_def playingA_def init_def new_Audio_def memoB_def)

section \<open>End of track\<close>

lemma findIndex_None: "findIndex P xs = None \<longleftrightarrow> (\<forall>x \<in> set xs. \<not> P x)"
  by (induction xs) (auto split: option.splits)

lemma findIndex_Some:
  "findIndex P xs = Some i \<longleftrightarrow> i < length xs \<and> P (xs ! i) \<and> (\<forall>j < i. \<not> P (xs ! j))"
proof (induction xs arbitrary: i)
  case Nil
  then show ?case by simp
next
  case (Cons x xs)
  show ?case
  proof (cases "P x")
    case True
    then show ?thesis by (cases i) auto
  next
    case False
    show ?thesis
    proof (cases i)
      case 0
      with False show ?thesis by (auto split: option.splits)
    next
      case (Suc k)
      with False Cons.IH [of k] show ?thesis
        by (auto split: option.splits simp: All_less_Suc2)
    qed
  qed
qed

lemma next_differs:
  assumes "distinct (map memo_id ms)" "2 \<le> length ms" "i < length ms"
  shows "memo_id (ms ! ((i + 1) mod length ms)) \<noteq> memo_id (ms ! i)"
proof -
  have "(i + 1) mod length ms \<noteq> i"
  proof (cases "i + 1 < length ms")
    case True
    then show ?thesis by simp
  next
    case False
    with assms(3) have "i + 1 = length ms" by simp
    with assms(2) show ?thesis by auto
  qed
  moreover have "0 < length ms" using assms(3) by auto
  then have "(i + 1) mod length ms < length ms" by simp
  ultimately show ?thesis
    using assms(1,3) by (simp add: distinct_conv_nth)
qed

lemma playMemo_from_other:
  "activeMemoId c \<noteq> Some (memo_id m) \<Longrightarrow> playMemo_from c Started m s = resumed (selected m s)"
  by (simp add: playMemo_from_def selected_def resumed_def audio_play_def audio_load_def
      audio_set_src_def)

text \<open>
  Under \<open>LOOP_ALL\<close>, when the memo after the active one carries another id, which is so
  whenever the store holds at least two memos and no two of them share an id, the handler
  selects it, loads it and starts it, from the last memo on to the first; when the active
  id is not in the store the handler changes nothing.
\<close>

lemma handlePlaybackEnded_next:
  assumes "playbackMode c = LOOP_ALL"
    and "findIndex (\<lambda>m. Some (memo_id m) = activeMemoId c) (memos c) = Some i"
    and "activeMemoId c \<noteq> Some (memo_id (memos c ! ((i + 1) mod length (memos c))))"
  shows "handlePlaybackEnded c Started s
           = resumed (selected (memos c ! ((i + 1) mod length (memos c))) s)"
  using assms by (simp add: handlePlaybackEnded_def playMemo_from_other)

lemma handlePlaybackEnded_next_differs:
  assumes "findIndex (\<lambda>m. Some (memo_id m) = activeMemoId c) (memos c) = Some i"
    and "distinct (map memo_id (memos c))" "2 \<le> length (memos c)"
  shows "activeMemoId c \<noteq> Some (memo_id (memos c ! ((i + 1) mod length (memos c))))"
proof -
  from assms(1) have "i < length (memos c)" and "Some (memo_id (memos c ! i)) = activeMemoId c"
    by (simp_all add: findIndex_Some)
  with assms(2,3) next_differs [of "memos c" i] show ?thesis
    by auto
qed

lemma handlePlaybackEnded_absent:
  assumes "playbackMode c = LOOP_ALL"
    and "activeMemoId c \<notin> Some ` memo_id ` set (memos c)"
  shows "handlePlaybackEnded c r s = s"
proof -
  from assms(2) have "findIndex (\<lambda>m. Some (memo_id m) = activeMemoId c) (memos c) = None"
    by (fastforce simp: findIndex_None image_iff)
  with assms(1) show ?thesis
    by (simp add: handlePlaybackEnded_def)
qed

lemma handlePlaybackEnded_last_to_first:
  "handlePlaybackEnded endedB Started endedB = resumed (selected memoA endedB)
   \<and> activeMemoId (settle (handlePlaybackEnded endedB Started endedB)) = Some ''1''
   \<and> isPlaying (settle (handlePlaybackEnded endedB Started endedB))
   \<and> handlePlaybackEnded endedGone Started endedGone = endedGone"
proof -
  have m: "playbackMode endedB = LOOP_ALL" "playbackMode endedGone = LOOP_ALL"
    by (simp_all add: endedGone_def endedB_def init_def)
  have f: "findIndex (\<lambda>m. Some (memo_id m) = activeMemoId endedB) (memos endedB) = Some 1"
    by (simp add: endedB_def init_def memoA_def memoB_def)
  have n: "memos endedB ! ((1 + 1) mod length (memos endedB)) = memoA"
    by (simp add: endedB_def init_def)
  have x: "activeMemoId endedB \<noteq> Some (memo_id memoA)"
    by (simp add: endedB_def init_def memoA_def)
  have g: "activeMemoId endedGone \<notin> Some ` memo_id ` set (memos endedGone)"
    by (simp add: endedGone_def endedB_def init_def memoA_def memoB_def)
  from x have e: "handlePlaybackEnded endedB Started endedB = resumed (selected memoA endedB)"
    using handlePlaybackEnded_next [OF m(1) f, of endedB] unfolding n by simp
  have k: "handlePlaybackEnded endedGone Started endedGone = endedGone"
    using m(2) g by (rule handlePlaybackEnded_absent)
  show ?thesis
    unfolding e k settle_resumed_selected by (simp add: selected_def memoA_def)
qed

text \<open>
  On a store of one memo the memo after the active one is the active one, and
  \<open>playMemo\<close> takes its toggle branch. When the render that registered the listener held
  \<open>isPlaying\<close> false, as after a selection by click, \<open>play()\<close> is called and the memo
  plays again.
\<close>

lemma handlePlaybackEnded_one_memo_loops:
  "handlePlaybackEnded oneMemoEnded Started oneMemoEnded = resumed oneMemoEnded
   \<and> \<not> paused (audioRef (settle (handlePlaybackEnded oneMemoEnded Started oneMemoEnded)))
   \<and> isPlaying (settle (handlePlaybackEnded oneMemoEnded Started oneMemoEnded))"
  by (simp add: handlePlaybackEnded_def playMemo_from_def audio_play_def resumed_def settle_def
      oneMemoEnded_def init_def new_Audio_def memoA_def)

text \<open>
  C1. The code at the end of the track of the only memo of the store, under \<open>LOOP_ALL\<close>,
  when the listener is the one registered by a render that held \<open>isPlaying\<close> true (the
  effect depends on \<open>memos\<close>, \<open>activeMemoId\<close> and \<open>playbackMode\<close>, and not on
  \<open>isPlaying\<close>, which \<open>playMemo\<close> reads): index \<open>(0 + 1) mod 1\<close> is the active memo again,
  \<open>playMemo\<close> takes its toggle branch, finds \<open>isPlaying\<close> true and calls \<open>pause()\<close> on the
  element, which has ended and is paused. Nothing changes: the memo is not played again.
\<close>

theorem handlePlaybackEnded_one_memo_stops:
  "memos oneMemoPlaying = memos oneMemoEnded
   \<and> activeMemoId oneMemoPlaying = activeMemoId oneMemoEnded
   \<and> playbackMode oneMemoPlaying = playbackMode oneMemoEnded
   \<and> isPlaying oneMemoPlaying
   \<and> playbackMode oneMemoPlaying = LOOP_ALL
   \<and> findIndex (\<lambda>m. Some (memo_id m) = activeMemoId oneMemoPlaying) (memos oneMemoPlaying)
       = Some 0
   \<and> handlePlaybackEnded oneMemoPlaying Started oneMemoEnded = oneMemoEnded
   \<and> paused (audioRef (settle (handlePlaybackEnded oneMemoPlaying Started oneMemoEnded)))
   \<and> \<not> isPlaying (settle (handlePlaybackEnded oneMemoPlaying Started oneMemoEnded))"
proof -
  have a: "handlePlaybackEnded oneMemoPlaying Started oneMemoEnded = oneMemoEnded"
    by (simp add: handlePlaybackEnded_def playMemo_from_def audio_pause_def oneMemoPlaying_def
        oneMemoEnded_def init_def new_Audio_def memoA_def)
  show ?thesis
    unfolding a
    by (simp add: settle_def oneMemoPlaying_def oneMemoEnded_def init_def new_Audio_def memoA_def)
qed

end
